theory Spec2Isabelle
  imports Complex_Main
begin

section \<open>Shared model: errors, time, actors, store rows\<close>

text \<open>
  The handlers of \<^verbatim>\<open>app/api/routers\<close> are embedded as functions from the store
  before the request to a pair: what the handler returns (or the exception it raises) and
  the store after the request. A handler that raises commits nothing, so the store it
  leaves is the one it found.

  Exceptions are values. \<open>HTTPException code detail\<close> is FastAPI's exception as the
  handlers raise it; \<open>RequestValidationError\<close> is what FastAPI raises when a
  \<^verbatim>\<open>Path(..., gt=0)\<close> or \<^verbatim>\<open>Query(..., ge=0, le=100)\<close> constraint of the
  signature fails; \<open>IntegrityError\<close> is the commit failing because a
  \<^verbatim>\<open>nullable=False\<close> column would hold NULL; \<open>InvalidRequestError\<close> is the
  session refusing to delete an instance that was never persisted.
\<close>

datatype error =
    HTTPException nat string
  | RequestValidationError
  | IntegrityError
  | InvalidRequestError

type_synonym 'a result = "error + 'a"

text \<open>
  Python integers are unbounded: ids and percentages are \<open>int\<close>. A point in time is
  the number of seconds on one time line; \<^verbatim>\<open>func.now()\<close> and
  \<^verbatim>\<open>datetime.now()\<close> are the parameter \<open>now\<close> of each handler.
\<close>

type_synonym datetime = int

definition timedelta_days :: "int \<Rightarrow> int" where
  "timedelta_days d = d * 86400"

text \<open>
  A field of an update schema (\<^verbatim>\<open>Optional[T] = None\<close>) read through
  \<^verbatim>\<open>dict(exclude_unset=True)\<close> has three states: absent from the request
  (\<open>None\<close>), sent as null (\<open>Some None\<close>), sent with a value (\<open>Some (Some v)\<close>).
  Reading the attribute itself (\<^verbatim>\<open>task_in.assignee_id\<close>) gives the schema default
  \<^verbatim>\<open>None\<close> in the first two states.
\<close>

type_synonym 'a field = "'a option option"

definition attr :: "'a field \<Rightarrow> 'a option" where
  "attr f = (case f of None \<Rightarrow> None | Some v \<Rightarrow> v)"

text \<open>
  \<^verbatim>\<open>setattr(row, field, update_data[field])\<close> for every key of
  \<^verbatim>\<open>update_data\<close>. For a nullable column the new value is stored as it is. For a
  \<^verbatim>\<open>nullable=False\<close> column the result \<open>None\<close> stands for NULL, which the
  commit refuses.
\<close>

definition set_nullable :: "'a field \<Rightarrow> 'a option \<Rightarrow> 'a option" where
  "set_nullable f cur = (case f of None \<Rightarrow> cur | Some v \<Rightarrow> v)"

definition set_required :: "'a field \<Rightarrow> 'a \<Rightarrow> 'a option" where
  "set_required f cur = (case f of None \<Rightarrow> Some cur | Some v \<Rightarrow> v)"

text \<open>
  The store assigns the primary key of a new row: one more than the largest key of the
  table (SQLite's rowid rule; the configured store is SQLite).
\<close>

definition next_id :: "int list \<Rightarrow> int" where
  "next_id ids = fold max ids 0 + 1"

subsection \<open>Users and the role dependencies (\<^verbatim>\<open>app/core/deps.py\<close>)\<close>

text \<open>
  \<^verbatim>\<open>role\<close> is a free string column (\<^verbatim>\<open>UserCreate.role: str\<close>), so a role outside
  the four named ones can be stored. \<open>u_is_active\<close> is the truth value of the
  \<^verbatim>\<open>is_active\<close> column. Token decoding is outside the model: every function below
  starts from the user row the token resolved to.
\<close>

record user =
  u_id :: int
  u_role :: string
  u_is_active :: bool

definition get_current_active_user :: "user \<Rightarrow> user result" where
  "get_current_active_user current_user =
     (if \<not> u_is_active current_user then Inl (HTTPException 400 ''Inactive user'')
      else Inr current_user)"

definition get_current_manager_or_admin_user :: "user \<Rightarrow> user result" where
  "get_current_manager_or_admin_user u =
     (case get_current_active_user u of
        Inl e \<Rightarrow> Inl e
      | Inr current_user \<Rightarrow>
          if u_role current_user \<notin> set [''admin'', ''manager'']
          then Inl (HTTPException 403 ''The user doesn't have enough privileges'')
          else Inr current_user)"

definition get_current_finance_admin_or_admin_user :: "user \<Rightarrow> user result" where
  "get_current_finance_admin_or_admin_user u =
     (case get_current_active_user u of
        Inl e \<Rightarrow> Inl e
      | Inr current_user \<Rightarrow>
          if u_role current_user \<notin> set [''admin'', ''finance'']
          then Inl (HTTPException 403 ''The user doesn't have enough privileges'')
          else Inr current_user)"

section \<open>Expenses (\<^verbatim>\<open>app/models/expense.py\<close>, \<^verbatim>\<open>app/schemas/expense.py\<close>)\<close>

datatype expense_status = Submitted | Approved | Rejected | Reimbursed

datatype expense_category = Equipment | Travel | Meals | Software | Supplies | Other

fun expense_status_str :: "expense_status \<Rightarrow> string" where
  "expense_status_str Submitted = ''submitted''"
| "expense_status_str Approved = ''approved''"
| "expense_status_str Rejected = ''rejected''"
| "expense_status_str Reimbursed = ''reimbursed''"

text \<open>
  A row of the \<^verbatim>\<open>expenses\<close> table. \<^verbatim>\<open>amount\<close> is a float the handlers only
  copy, never compute with. \<^verbatim>\<open>updated_at\<close>, which the store refreshes by itself on
  every row update, is left out of all rows.
\<close>

record expense =
  e_id :: int
  e_description :: string
  e_amount :: real
  e_date :: datetime
  e_category :: expense_category
  e_notes :: "string option"
  e_status :: expense_status
  e_submitter_id :: int
  e_approver_id :: "int option"
  e_reimburser_id :: "int option"
  e_created_at :: datetime
  e_approved_at :: "datetime option"
  e_reimbursed_at :: "datetime option"
  e_client_id :: "int option"

record expense_create =
  ec_description :: string
  ec_amount :: real
  ec_date :: datetime
  ec_category :: expense_category
  ec_notes :: "string option"
  ec_client_id :: "int option"

record expense_update =
  eu_description :: "string field"
  eu_amount :: "real field"
  eu_date :: "datetime field"
  eu_category :: "expense_category field"
  eu_notes :: "string field"
  eu_status :: "expense_status field"
  eu_client_id :: "int field"

record expense_approval =
  ea_status :: expense_status
  ea_notes :: "string option"

section \<open>Clients, contacts, quotations (\<^verbatim>\<open>app/models/client.py\<close>, \<^verbatim>\<open>app/schemas/client.py\<close>)\<close>

datatype client_status = Active | Pending | Inactive

datatype service_plan = Basic | Standard | Premium | Enterprise

record client =
  cl_id :: int
  cl_name :: string
  cl_location :: string
  cl_status :: client_status
  cl_service_plan :: service_plan
  cl_notes :: "string option"
  cl_created_at :: datetime
  cl_onboarded_at :: "datetime option"

record client_update =
  clu_name :: "string field"
  clu_location :: "string field"
  clu_status :: "client_status field"
  clu_service_plan :: "service_plan field"
  clu_notes :: "string field"

text \<open>
  \<^verbatim>\<open>is_primary\<close> is a nullable Boolean column: an update that sends null stores NULL,
  which no query for \<^verbatim>\<open>is_primary == True\<close> matches.
\<close>

record contact =
  c_id :: int
  c_client_id :: int
  c_name :: string
  c_role :: "string option"
  c_department :: "string option"
  c_email :: string
  c_phone :: "string option"
  c_preferred_contact :: "string option"
  c_is_primary :: "bool option"
  c_created_at :: datetime

text \<open>
  \<^verbatim>\<open>ContactCreate\<close> after validation: the defaults
  (\<^verbatim>\<open>preferred_contact = "email"\<close>, \<^verbatim>\<open>is_primary = False\<close>) are filled in, and
  \<^verbatim>\<open>client_id\<close> is a required field of the request body, next to the
  \<^verbatim>\<open>client_id\<close> of the path.
\<close>

record contact_create =
  cc_name :: string
  cc_role :: "string option"
  cc_department :: "string option"
  cc_email :: string
  cc_phone :: "string option"
  cc_preferred_contact :: "string option"
  cc_is_primary :: bool
  cc_client_id :: int

record contact_update =
  cu_name :: "string field"
  cu_role :: "string field"
  cu_department :: "string field"
  cu_email :: "string field"
  cu_phone :: "string field"
  cu_preferred_contact :: "string field"
  cu_is_primary :: "bool field"

datatype quotation_status = Draft | Sent | Accepted | QRejected

record quotation =
  q_id :: int
  q_client_id :: int
  q_version :: int
  q_html_content :: string
  q_status :: quotation_status
  q_created_at :: datetime
  q_sent_at :: "datetime option"

record quotation_create =
  qc_html_content :: string
  qc_status :: quotation_status
  qc_client_id :: int

record quotation_update =
  qu_html_content :: "string field"
  qu_status :: "quotation_status field"

section \<open>Tasks (\<^verbatim>\<open>app/models/task.py\<close>, \<^verbatim>\<open>app/schemas/task.py\<close>)\<close>

datatype task_priority = High | Medium | Low

datatype task_status = TPending | InProgress | Completed

datatype task_category = Meeting | Call | Documentation | Development | TOther

text \<open>
  \<^verbatim>\<open>completion_percentage\<close> and \<^verbatim>\<open>reminder_enabled\<close> are nullable columns with a
  default; \<^verbatim>\<open>TaskUpdate.completion_percentage\<close> is a plain \<^verbatim>\<open>Optional[int]\<close>
  with no range constraint.
\<close>

record task =
  t_id :: int
  t_title :: string
  t_description :: "string option"
  t_priority :: task_priority
  t_due_date :: "int option"
  t_status :: task_status
  t_completion_percentage :: "int option"
  t_owner_id :: int
  t_assignee_id :: "int option"
  t_client_id :: "int option"
  t_category :: "task_category option"
  t_created_at :: datetime
  t_completed_at :: "datetime option"
  t_reminder_enabled :: "bool option"
  t_reminder_date :: "datetime option"

record task_update =
  tu_title :: "string field"
  tu_description :: "string field"
  tu_priority :: "task_priority field"
  tu_due_date :: "int field"
  tu_status :: "task_status field"
  tu_completion_percentage :: "int field"
  tu_assignee_id :: "int field"
  tu_category :: "task_category field"
  tu_client_id :: "int field"
  tu_reminder_enabled :: "bool field"
  tu_reminder_date :: "datetime field"

section \<open>The store\<close>

text \<open>
  One list of rows per table, in storage order. \<^verbatim>\<open>query.filter(...).first()\<close> is
  \<^const>\<open>find\<close> on that list. Foreign keys are not enforced (SQLite's default), so a
  \<^verbatim>\<open>client_id\<close> is whatever the request put there.
\<close>

record db =
  users :: "user list"
  clients :: "client list"
  contacts :: "contact list"
  quotations :: "quotation list"
  tasks :: "task list"
  expenses :: "expense list"

text \<open>
  \<^verbatim>\<open>db.add(row); db.commit()\<close> for a row loaded from the store writes the row back
  under its primary key.
\<close>

definition save_expense :: "expense \<Rightarrow> expense list \<Rightarrow> expense list" where
  "save_expense x rows = map (\<lambda>r. if e_id r = e_id x then x else r) rows"

definition save_client :: "client \<Rightarrow> client list \<Rightarrow> client list" where
  "save_client x rows = map (\<lambda>r. if cl_id r = cl_id x then x else r) rows"

definition save_contact :: "contact \<Rightarrow> contact list \<Rightarrow> contact list" where
  "save_contact x rows = map (\<lambda>r. if c_id r = c_id x then x else r) rows"

definition save_quotation :: "quotation \<Rightarrow> quotation list \<Rightarrow> quotation list" where
  "save_quotation x rows = map (\<lambda>r. if q_id r = q_id x then x else r) rows"

definition save_task :: "task \<Rightarrow> task list \<Rightarrow> task list" where
  "save_task x rows = map (\<lambda>r. if t_id r = t_id x then x else r) rows"

definition get_expense_row :: "db \<Rightarrow> int \<Rightarrow> expense option" where
  "get_expense_row d expense_id = find (\<lambda>e. e_id e = expense_id) (expenses d)"

definition get_client_row :: "db \<Rightarrow> int \<Rightarrow> client option" where
  "get_client_row d client_id = find (\<lambda>c. cl_id c = client_id) (clients d)"

definition get_user_row :: "db \<Rightarrow> int \<Rightarrow> user option" where
  "get_user_row d user_id = find (\<lambda>u. u_id u = user_id) (users d)"

definition get_task_row :: "db \<Rightarrow> int \<Rightarrow> task option" where
  "get_task_row d task_id = find (\<lambda>t. t_id t = task_id) (tasks d)"

section \<open>Expense handlers (\<^verbatim>\<open>app/api/routers/finance.py\<close>)\<close>

text \<open>
  An instance built by a model constructor is transient; one loaded by a query is
  persistent. \<^verbatim>\<open>Session.delete\<close> removes the row of a persistent instance and raises
  for a transient one.
\<close>

datatype instance_state = Transient | Persistent

definition session_delete_expense ::
  "instance_state \<Rightarrow> expense \<Rightarrow> expense list \<Rightarrow> expense list result" where
  "session_delete_expense st x rows =
     (case st of
        Transient \<Rightarrow> Inl InvalidRequestError
      | Persistent \<Rightarrow> Inr (filter (\<lambda>r. e_id r \<noteq> e_id x) rows))"

text \<open>
  \<^verbatim>\<open>create_expense\<close>: the client check (skipped when \<^verbatim>\<open>client_id\<close> is absent or
  0, both falsy), the construction of the row, then \<^verbatim>\<open>db.delete(expense)\<close> on the
  row just built.
\<close>

definition create_expense ::
  "datetime \<Rightarrow> db \<Rightarrow> expense_create \<Rightarrow> user \<Rightarrow> expense result \<times> db" where
  "create_expense now d expense_in current_user =
     (if (case ec_client_id expense_in of
            None \<Rightarrow> False
          | Some cid \<Rightarrow> cid \<noteq> 0 \<and> get_client_row d cid = None)
      then (Inl (HTTPException 404 ''Client not found''), d)
      else
        let expense = \<lparr>e_id = next_id (map e_id (expenses d)),
              e_description = ec_description expense_in,
              e_amount = ec_amount expense_in,
              e_date = ec_date expense_in,
              e_category = ec_category expense_in,
              e_notes = ec_notes expense_in,
              e_status = Submitted,
              e_submitter_id = u_id current_user,
              e_approver_id = None,
              e_reimburser_id = None,
              e_created_at = now,
              e_approved_at = None,
              e_reimbursed_at = None,
              e_client_id = ec_client_id expense_in\<rparr>
        in (case session_delete_expense Transient expense (expenses d) of
              Inl err \<Rightarrow> (Inl err, d)
            | Inr rows \<Rightarrow> (Inr expense, d\<lparr>expenses := rows\<rparr>)))"

text \<open>
  \<^verbatim>\<open>approve_expense\<close>. The notes branch: \<^verbatim>\<open>if approval.notes\<close> holds for a
  non-empty string; \<^verbatim>\<open>not expense.notes\<close> holds for null and for the empty string.
\<close>

definition approval_notes :: "string option \<Rightarrow> string option \<Rightarrow> string option" where
  "approval_notes current given =
     (case given of
        None \<Rightarrow> current
      | Some n \<Rightarrow>
          if n = [] then current
          else (case current of
                  None \<Rightarrow> Some n
                | Some old \<Rightarrow>
                    if old = [] then Some n
                    else Some (old @ [CHR 0x0A, CHR 0x0A] @ ''Approval notes: '' @ n)))"

definition approve_expense ::
  "datetime \<Rightarrow> db \<Rightarrow> int \<Rightarrow> expense_approval \<Rightarrow> user \<Rightarrow> expense result \<times> db" where
  "approve_expense now d expense_id approval current_user =
     (case get_expense_row d expense_id of
        None \<Rightarrow> (Inl (HTTPException 404 ''Expense not found''), d)
      | Some expense \<Rightarrow>
          if e_status expense \<noteq> Submitted
          then (Inl (HTTPException 400
                  (''Cannot approve/reject expense with status '' @ [CHR 0x27]
                     @ expense_status_str (e_status expense) @ [CHR 0x27])), d)
          else
            let expense' = expense\<lparr>e_status := ea_status approval,
                  e_approver_id := Some (u_id current_user),
                  e_approved_at := Some now,
                  e_notes := approval_notes (e_notes expense) (ea_notes approval)\<rparr>
            in (Inr expense', d\<lparr>expenses := save_expense expense' (expenses d)\<rparr>))"

definition reimburse_expense ::
  "datetime \<Rightarrow> db \<Rightarrow> int \<Rightarrow> user \<Rightarrow> expense result \<times> db" where
  "reimburse_expense now d expense_id current_user =
     (case get_expense_row d expense_id of
        None \<Rightarrow> (Inl (HTTPException 404 ''Expense not found''), d)
      | Some expense \<Rightarrow>
          if e_status expense \<noteq> Approved
          then (Inl (HTTPException 400 ''Can only reimburse approved expenses''), d)
          else
            let expense' = expense\<lparr>e_status := Reimbursed,
                  e_reimburser_id := Some (u_id current_user),
                  e_reimbursed_at := Some now\<rparr>
            in (Inr expense', d\<lparr>expenses := save_expense expense' (expenses d)\<rparr>))"

text \<open>
  The routes as FastAPI runs them: the role dependency of the signature first, the handler
  only when the dependency returned a user.
\<close>

definition approve_expense_route ::
  "datetime \<Rightarrow> db \<Rightarrow> int \<Rightarrow> expense_approval \<Rightarrow> user \<Rightarrow> expense result \<times> db" where
  "approve_expense_route now d expense_id approval u =
     (case get_current_manager_or_admin_user u of
        Inl err \<Rightarrow> (Inl err, d)
      | Inr current_user \<Rightarrow> approve_expense now d expense_id approval current_user)"

definition reimburse_expense_route ::
  "datetime \<Rightarrow> db \<Rightarrow> int \<Rightarrow> user \<Rightarrow> expense result \<times> db" where
  "reimburse_expense_route now d expense_id u =
     (case get_current_finance_admin_or_admin_user u of
        Inl err \<Rightarrow> (Inl err, d)
      | Inr current_user \<Rightarrow> reimburse_expense now d expense_id current_user)"

text \<open>
  \<^verbatim>\<open>update_expense\<close>. \<open>setattr_expense\<close> is the loop over
  \<^verbatim>\<open>update_data\<close> followed by the commit: description, amount, date, category and
  status are \<^verbatim>\<open>nullable=False\<close>.
\<close>

definition setattr_expense :: "expense_update \<Rightarrow> expense \<Rightarrow> expense result" where
  "setattr_expense upd e =
     (case set_required (eu_description upd) (e_description e) of
        None \<Rightarrow> Inl IntegrityError
      | Some de \<Rightarrow>
     (case set_required (eu_amount upd) (e_amount e) of
        None \<Rightarrow> Inl IntegrityError
      | Some am \<Rightarrow>
     (case set_required (eu_date upd) (e_date e) of
        None \<Rightarrow> Inl IntegrityError
      | Some da \<Rightarrow>
     (case set_required (eu_category upd) (e_category e) of
        None \<Rightarrow> Inl IntegrityError
      | Some ca \<Rightarrow>
     (case set_required (eu_status upd) (e_status e) of
        None \<Rightarrow> Inl IntegrityError
      | Some st \<Rightarrow>
          Inr (e\<lparr>e_description := de, e_amount := am, e_date := da, e_category := ca,
                 e_notes := set_nullable (eu_notes upd) (e_notes e),
                 e_status := st,
                 e_client_id := set_nullable (eu_client_id upd) (e_client_id e)\<rparr>))))))"

text \<open>
  The block under \<^verbatim>\<open>if "status" in update_data and current_user.role in
  ["admin", "manager", "finance"]\<close>: \<open>st\<close> is \<^verbatim>\<open>update_data["status"]\<close>, null
  included. It raises or returns the expense with the approval or reimbursement stamp.
\<close>

definition status_block ::
  "datetime \<Rightarrow> user \<Rightarrow> expense_status option \<Rightarrow> expense \<Rightarrow> expense result" where
  "status_block now current_user st expense =
     (if u_role current_user = ''finance'' \<and> st \<noteq> Some Reimbursed
      then Inl (HTTPException 403
             (''Finance admin can only change status to 'reimbursed'' @ [CHR 0x27]))
      else if u_role current_user = ''manager'' \<and> st \<notin> set [Some Approved, Some Rejected]
      then Inl (HTTPException 403 ''Managers can only approve or reject expenses'')
      else if st = Some Approved
      then Inr (expense\<lparr>e_approver_id := Some (u_id current_user), e_approved_at := Some now\<rparr>)
      else if st = Some Reimbursed
      then Inr (expense\<lparr>e_reimburser_id := Some (u_id current_user),
                  e_reimbursed_at := Some now\<rparr>)
      else Inr expense)"

definition update_expense ::
  "datetime \<Rightarrow> db \<Rightarrow> int \<Rightarrow> expense_update \<Rightarrow> user \<Rightarrow> expense result \<times> db" where
  "update_expense now d expense_id expense_in current_user =
     (case get_expense_row d expense_id of
        None \<Rightarrow> (Inl (HTTPException 404 ''Expense not found''), d)
      | Some expense \<Rightarrow>
          if u_role current_user = ''employee'' \<and> e_submitter_id expense \<noteq> u_id current_user
          then (Inl (HTTPException 403 ''You don't have permission to update this expense''), d)
          else if u_role current_user = ''employee'' \<and> e_status expense \<noteq> Submitted
          then (Inl (HTTPException 403
                  ''You can only update expenses in 'submitted' status''), d)
          else
            (case (case eu_status expense_in of
                     None \<Rightarrow> Inr expense
                   | Some st \<Rightarrow>
                       if u_role current_user \<in> set [''admin'', ''manager'', ''finance'']
                       then status_block now current_user st expense
                       else Inr expense) of
               Inl err \<Rightarrow> (Inl err, d)
             | Inr stamped \<Rightarrow>
                 (case setattr_expense expense_in stamped of
                    Inl err \<Rightarrow> (Inl err, d)
                  | Inr expense' \<Rightarrow>
                      (Inr expense', d\<lparr>expenses := save_expense expense' (expenses d)\<rparr>))))"

definition update_expense_route ::
  "datetime \<Rightarrow> db \<Rightarrow> int \<Rightarrow> expense_update \<Rightarrow> user \<Rightarrow> expense result \<times> db" where
  "update_expense_route now d expense_id expense_in u =
     (case get_current_active_user u of
        Inl err \<Rightarrow> (Inl err, d)
      | Inr current_user \<Rightarrow> update_expense now d expense_id expense_in current_user)"

text \<open>
  \<^verbatim>\<open>delete_expense\<close>: the function body ends after the last permission check, so a
  request that passes every check returns Python's \<^verbatim>\<open>None\<close> (\<open>Inr None\<close>).
\<close>

definition delete_expense ::
  "datetime \<Rightarrow> db \<Rightarrow> int \<Rightarrow> user \<Rightarrow> expense option result \<times> db" where
  "delete_expense now d expense_id current_user =
     (case get_expense_row d expense_id of
        None \<Rightarrow> (Inl (HTTPException 404 ''Expense not found''), d)
      | Some expense \<Rightarrow>
          if u_role current_user = ''employee'' then
            (if e_submitter_id expense \<noteq> u_id current_user
             then (Inl (HTTPException 403
                     ''You don't have permission to delete this expense''), d)
             else if e_status expense \<noteq> Submitted
             then (Inl (HTTPException 403
                     ''You can only delete expenses in 'submitted' status''), d)
             else (Inr None, d))
          else if u_role current_user = ''manager'' then
            (if e_status expense = Reimbursed
             then (Inl (HTTPException 403 ''You cannot delete reimbursed expenses''), d)
             else (Inr None, d))
          else if u_role current_user = ''finance'' then
            (let two_weeks_ago = now - timedelta_days 14
             in if e_created_at expense > two_weeks_ago
                then (Inl (HTTPException 403
                        ''You can only delete expenses that are at least 2 weeks old''), d)
                else (Inr None, d))
          else (Inr None, d))"

section \<open>Client handlers (\<^verbatim>\<open>app/api/routers/clients.py\<close>)\<close>

definition setattr_client :: "client_update \<Rightarrow> client \<Rightarrow> client result" where
  "setattr_client upd c =
     (case set_required (clu_name upd) (cl_name c) of
        None \<Rightarrow> Inl IntegrityError
      | Some na \<Rightarrow>
     (case set_required (clu_location upd) (cl_location c) of
        None \<Rightarrow> Inl IntegrityError
      | Some lo \<Rightarrow>
     (case set_required (clu_status upd) (cl_status c) of
        None \<Rightarrow> Inl IntegrityError
      | Some st \<Rightarrow>
     (case set_required (clu_service_plan upd) (cl_service_plan c) of
        None \<Rightarrow> Inl IntegrityError
      | Some sp \<Rightarrow>
          Inr (c\<lparr>cl_name := na, cl_location := lo, cl_status := st, cl_service_plan := sp,
                 cl_notes := set_nullable (clu_notes upd) (cl_notes c)\<rparr>)))))"

definition update_client ::
  "datetime \<Rightarrow> db \<Rightarrow> int \<Rightarrow> client_update \<Rightarrow> user \<Rightarrow> client result \<times> db" where
  "update_client now d client_id client_in current_user =
     (if client_id \<le> 0 then (Inl RequestValidationError, d)
      else
        (case get_client_row d client_id of
           None \<Rightarrow> (Inl (HTTPException 404 ''Client not found''), d)
         | Some client \<Rightarrow>
             let stamped =
                   (if attr (clu_status client_in) = Some Active \<and> cl_status client \<noteq> Active
                    then client\<lparr>cl_onboarded_at := Some now\<rparr>
                    else client)
             in (case setattr_client client_in stamped of
                   Inl err \<Rightarrow> (Inl err, d)
                 | Inr client' \<Rightarrow>
                     (Inr client', d\<lparr>clients := save_client client' (clients d)\<rparr>))))"

text \<open>
  \<^verbatim>\<open>create_client_contact\<close>: the client of the path is looked up and its first
  primary contact demoted; the new row is built from \<^verbatim>\<open>contact_in.dict()\<close>, whose
  \<^verbatim>\<open>client_id\<close> is the one of the request body.
\<close>

definition create_client_contact ::
  "datetime \<Rightarrow> db \<Rightarrow> int \<Rightarrow> contact_create \<Rightarrow> user \<Rightarrow> contact result \<times> db" where
  "create_client_contact now d client_id contact_in current_user =
     (if client_id \<le> 0 then (Inl RequestValidationError, d)
      else
        (case get_client_row d client_id of
           None \<Rightarrow> (Inl (HTTPException 404 ''Client not found''), d)
         | Some client \<Rightarrow>
             let rows =
                   (if cc_is_primary contact_in then
                      (case find (\<lambda>c. c_client_id c = client_id \<and> c_is_primary c = Some True)
                              (contacts d) of
                         None \<Rightarrow> contacts d
                       | Some existing_primary \<Rightarrow>
                           save_contact (existing_primary\<lparr>c_is_primary := Some False\<rparr>)
                             (contacts d))
                    else contacts d);
                 contact = \<lparr>c_id = next_id (map c_id (contacts d)),
                   c_client_id = cc_client_id contact_in,
                   c_name = cc_name contact_in,
                   c_role = cc_role contact_in,
                   c_department = cc_department contact_in,
                   c_email = cc_email contact_in,
                   c_phone = cc_phone contact_in,
                   c_preferred_contact = cc_preferred_contact contact_in,
                   c_is_primary = Some (cc_is_primary contact_in),
                   c_created_at = now\<rparr>
             in (Inr contact, d\<lparr>contacts := rows @ [contact]\<rparr>)))"

definition setattr_contact :: "contact_update \<Rightarrow> contact \<Rightarrow> contact result" where
  "setattr_contact upd c =
     (case set_required (cu_name upd) (c_name c) of
        None \<Rightarrow> Inl IntegrityError
      | Some na \<Rightarrow>
     (case set_required (cu_email upd) (c_email c) of
        None \<Rightarrow> Inl IntegrityError
      | Some em \<Rightarrow>
          Inr (c\<lparr>c_name := na,
                 c_role := set_nullable (cu_role upd) (c_role c),
                 c_department := set_nullable (cu_department upd) (c_department c),
                 c_email := em,
                 c_phone := set_nullable (cu_phone upd) (c_phone c),
                 c_preferred_contact :=
                   set_nullable (cu_preferred_contact upd) (c_preferred_contact c),
                 c_is_primary := set_nullable (cu_is_primary upd) (c_is_primary c)\<rparr>)))"

definition update_client_contact ::
  "db \<Rightarrow> int \<Rightarrow> int \<Rightarrow> contact_update \<Rightarrow> user \<Rightarrow> contact result \<times> db" where
  "update_client_contact d client_id contact_id contact_in current_user =
     (if client_id \<le> 0 \<or> contact_id \<le> 0 then (Inl RequestValidationError, d)
      else
        (case find (\<lambda>c. c_id c = contact_id \<and> c_client_id c = client_id) (contacts d) of
           None \<Rightarrow> (Inl (HTTPException 404 ''Contact not found''), d)
         | Some contact \<Rightarrow>
             let rows =
                   (if attr (cu_is_primary contact_in) = Some True
                        \<and> c_is_primary contact \<noteq> Some True then
                      (case find (\<lambda>c. c_client_id c = client_id \<and> c_is_primary c = Some True
                                        \<and> c_id c \<noteq> contact_id) (contacts d) of
                         None \<Rightarrow> contacts d
                       | Some existing_primary \<Rightarrow>
                           save_contact (existing_primary\<lparr>c_is_primary := Some False\<rparr>)
                             (contacts d))
                    else contacts d)
             in (case setattr_contact contact_in contact of
                   Inl err \<Rightarrow> (Inl err, d)
                 | Inr contact' \<Rightarrow>
                     (Inr contact', d\<lparr>contacts := save_contact contact' rows\<rparr>))))"

text \<open>
  \<^verbatim>\<open>create_client_quotation\<close>. \<open>sql_max\<close> is \<^verbatim>\<open>func.max\<close> over the selected
  rows (NULL for no row); \<^verbatim>\<open>or 0\<close> replaces NULL and 0 by 0. The maximum is taken
  over the quotations of the path's client; the row's \<^verbatim>\<open>client_id\<close> comes from
  \<^verbatim>\<open>quotation_in.dict()\<close>.
\<close>

definition sql_max :: "int list \<Rightarrow> int option" where
  "sql_max vs = (case vs of [] \<Rightarrow> None | v # rest \<Rightarrow> Some (fold max rest v))"

definition or_0 :: "int option \<Rightarrow> int" where
  "or_0 v = (case v of None \<Rightarrow> 0 | Some n \<Rightarrow> if n = 0 then 0 else n)"

definition create_client_quotation ::
  "datetime \<Rightarrow> db \<Rightarrow> int \<Rightarrow> quotation_create \<Rightarrow> user \<Rightarrow> quotation result \<times> db" where
  "create_client_quotation now d client_id quotation_in current_user =
     (if client_id \<le> 0 then (Inl RequestValidationError, d)
      else
        (case get_client_row d client_id of
           None \<Rightarrow> (Inl (HTTPException 404 ''Client not found''), d)
         | Some client \<Rightarrow>
             let latest_version =
                   or_0 (sql_max (map q_version
                     (filter (\<lambda>q. q_client_id q = client_id) (quotations d))));
                 quotation = \<lparr>q_id = next_id (map q_id (quotations d)),
                   q_client_id = qc_client_id quotation_in,
                   q_version = latest_version + 1,
                   q_html_content = qc_html_content quotation_in,
                   q_status = qc_status quotation_in,
                   q_created_at = now,
                   q_sent_at = None\<rparr>
             in (Inr quotation, d\<lparr>quotations := quotations d @ [quotation]\<rparr>)))"

definition setattr_quotation :: "quotation_update \<Rightarrow> quotation \<Rightarrow> quotation result" where
  "setattr_quotation upd q =
     (case set_required (qu_html_content upd) (q_html_content q) of
        None \<Rightarrow> Inl IntegrityError
      | Some ht \<Rightarrow>
     (case set_required (qu_status upd) (q_status q) of
        None \<Rightarrow> Inl IntegrityError
      | Some st \<Rightarrow> Inr (q\<lparr>q_html_content := ht, q_status := st\<rparr>)))"

definition update_client_quotation ::
  "datetime \<Rightarrow> db \<Rightarrow> int \<Rightarrow> int \<Rightarrow> quotation_update \<Rightarrow> user \<Rightarrow> quotation result \<times> db" where
  "update_client_quotation now d client_id quotation_id quotation_in current_user =
     (if client_id \<le> 0 \<or> quotation_id \<le> 0 then (Inl RequestValidationError, d)
      else
        (case find (\<lambda>q. q_id q = quotation_id \<and> q_client_id q = client_id) (quotations d) of
           None \<Rightarrow> (Inl (HTTPException 404 ''Quotation not found''), d)
         | Some quotation \<Rightarrow>
             let stamped =
                   (if attr (qu_status quotation_in) = Some Sent \<and> q_status quotation \<noteq> Sent
                    then quotation\<lparr>q_sent_at := Some now\<rparr>
                    else quotation)
             in (case setattr_quotation quotation_in stamped of
                   Inl err \<Rightarrow> (Inl err, d)
                 | Inr quotation' \<Rightarrow>
                     (Inr quotation',
                      d\<lparr>quotations := save_quotation quotation' (quotations d)\<rparr>))))"

section \<open>Task handlers (\<^verbatim>\<open>app/api/routers/tasks.py\<close>)\<close>

definition setattr_task :: "task_update \<Rightarrow> task \<Rightarrow> task result" where
  "setattr_task upd t =
     (case set_required (tu_title upd) (t_title t) of
        None \<Rightarrow> Inl IntegrityError
      | Some ti \<Rightarrow>
     (case set_required (tu_priority upd) (t_priority t) of
        None \<Rightarrow> Inl IntegrityError
      | Some pr \<Rightarrow>
     (case set_required (tu_status upd) (t_status t) of
        None \<Rightarrow> Inl IntegrityError
      | Some st \<Rightarrow>
          Inr (t\<lparr>t_title := ti,
                 t_description := set_nullable (tu_description upd) (t_description t),
                 t_priority := pr,
                 t_due_date := set_nullable (tu_due_date upd) (t_due_date t),
                 t_status := st,
                 t_completion_percentage :=
                   set_nullable (tu_completion_percentage upd) (t_completion_percentage t),
                 t_assignee_id := set_nullable (tu_assignee_id upd) (t_assignee_id t),
                 t_client_id := set_nullable (tu_client_id upd) (t_client_id t),
                 t_category := set_nullable (tu_category upd) (t_category t),
                 t_reminder_enabled :=
                   set_nullable (tu_reminder_enabled upd) (t_reminder_enabled t),
                 t_reminder_date := set_nullable (tu_reminder_date upd) (t_reminder_date t)\<rparr>))))"

text \<open>
  \<^verbatim>\<open>update_task\<close>: the permission checks, the existence checks for a client or an
  assignee named in the request, the completion stamp when the request sets status
  \<^verbatim>\<open>completed\<close> on a task that is not completed, then the loop over
  \<^verbatim>\<open>update_data\<close>.
\<close>

definition update_task ::
  "datetime \<Rightarrow> db \<Rightarrow> int \<Rightarrow> task_update \<Rightarrow> user \<Rightarrow> task result \<times> db" where
  "update_task now d task_id task_in current_user =
     (if task_id \<le> 0 then (Inl RequestValidationError, d)
      else
        (case get_task_row d task_id of
           None \<Rightarrow> (Inl (HTTPException 404 ''Task not found''), d)
         | Some task \<Rightarrow>
             if u_role current_user = ''employee'' \<and> t_owner_id task \<noteq> u_id current_user
                  \<and> t_assignee_id task \<noteq> Some (u_id current_user)
             then (Inl (HTTPException 403
                     ''You don't have permission to update this task''), d)
             else if (case attr (tu_assignee_id task_in) of
                        None \<Rightarrow> False
                      | Some a \<Rightarrow> u_role current_user = ''employee'' \<and> a \<noteq> u_id current_user)
             then (Inl (HTTPException 403 ''You can only assign tasks to yourself''), d)
             else if (case attr (tu_client_id task_in) of
                        None \<Rightarrow> False
                      | Some c \<Rightarrow> get_client_row d c = None)
             then (Inl (HTTPException 404 ''Client not found''), d)
             else if (case attr (tu_assignee_id task_in) of
                        None \<Rightarrow> False
                      | Some a \<Rightarrow> get_user_row d a = None)
             then (Inl (HTTPException 404 ''Assignee not found''), d)
             else
               let stamped =
                     (if tu_status task_in = Some (Some Completed) \<and> t_status task \<noteq> Completed
                      then task\<lparr>t_completed_at := Some now\<rparr>
                      else task)
               in (case setattr_task task_in stamped of
                     Inl err \<Rightarrow> (Inl err, d)
                   | Inr task' \<Rightarrow> (Inr task', d\<lparr>tasks := save_task task' (tasks d)\<rparr>))))"

text \<open>
  \<^verbatim>\<open>complete_task\<close>, with the \<^verbatim>\<open>Query(100, ge=0, le=100)\<close> constraint of its
  \<^verbatim>\<open>completion_percentage\<close> parameter.
\<close>

definition complete_task ::
  "datetime \<Rightarrow> db \<Rightarrow> int \<Rightarrow> int \<Rightarrow> user \<Rightarrow> task result \<times> db" where
  "complete_task now d task_id completion_percentage current_user =
     (if task_id \<le> 0 \<or> completion_percentage < 0 \<or> 100 < completion_percentage
      then (Inl RequestValidationError, d)
      else
        (case get_task_row d task_id of
           None \<Rightarrow> (Inl (HTTPException 404 ''Task not found''), d)
         | Some task \<Rightarrow>
             if u_role current_user = ''employee'' \<and> t_owner_id task \<noteq> u_id current_user
                  \<and> t_assignee_id task \<noteq> Some (u_id current_user)
             then (Inl (HTTPException 403
                     ''You don't have permission to update this task''), d)
             else
               let task1 = task\<lparr>t_completion_percentage := Some completion_percentage\<rparr>;
                   task' =
                     (if completion_percentage = 100
                      then task1\<lparr>t_status := Completed, t_completed_at := Some now\<rparr>
                      else if t_status task1 = Completed \<and> completion_percentage < 100
                      then task1\<lparr>t_status := InProgress, t_completed_at := None\<rparr>
                      else task1)
               in (Inr task', d\<lparr>tasks := save_task task' (tasks d)\<rparr>)))"

text \<open>
  \<^verbatim>\<open>assign_task\<close>, with the \<^verbatim>\<open>Query(..., gt=0)\<close> constraint of
  \<^verbatim>\<open>assignee_id\<close>.
\<close>

definition assign_task ::
  "db \<Rightarrow> int \<Rightarrow> int \<Rightarrow> user \<Rightarrow> task result \<times> db" where
  "assign_task d task_id assignee_id current_user =
     (if task_id \<le> 0 \<or> assignee_id \<le> 0 then (Inl RequestValidationError, d)
      else
        (case get_task_row d task_id of
           None \<Rightarrow> (Inl (HTTPException 404 ''Task not found''), d)
         | Some task \<Rightarrow>
             if u_role current_user = ''employee'' \<and> t_owner_id task \<noteq> u_id current_user
             then (Inl (HTTPException 403
                     ''You don't have permission to assign this task''), d)
             else if u_role current_user = ''employee'' \<and> assignee_id \<noteq> u_id current_user
             then (Inl (HTTPException 403 ''You can only assign tasks to yourself''), d)
             else if get_user_row d assignee_id = None
             then (Inl (HTTPException 404 ''Assignee not found''), d)
             else
               let task1 = task\<lparr>t_assignee_id := Some assignee_id\<rparr>;
                   task' = (if t_status task1 = TPending
                            then task1\<lparr>t_status := InProgress\<rparr>
                            else task1)
               in (Inr task', d\<lparr>tasks := save_task task' (tasks d)\<rparr>)))"

section \<open>Properties the store is checked against\<close>

text \<open>
  The primary contacts of one client, and "at most one of them"; the versions of one
  client's quotations in creation order; the two fields of a task that are meant to move
  together.
\<close>

definition primary_contacts :: "int \<Rightarrow> contact list \<Rightarrow> contact list" where
  "primary_contacts client_id rows =
     filter (\<lambda>c. c_client_id c = client_id \<and> c_is_primary c = Some True) rows"

definition at_most_one_primary :: "int \<Rightarrow> contact list \<Rightarrow> bool" where
  "at_most_one_primary client_id rows = (length (primary_contacts client_id rows) \<le> 1)"

definition client_versions :: "int \<Rightarrow> quotation list \<Rightarrow> int list" where
  "client_versions client_id rows =
     map q_version (filter (\<lambda>q. q_client_id q = client_id) rows)"

definition completion_consistent :: "task \<Rightarrow> bool" where
  "completion_consistent t =
     ((t_completion_percentage t = Some 100) = (t_status t = Completed))"

section \<open>A small store for concrete runs\<close>

definition demo_admin :: user where
  "demo_admin = \<lparr>u_id = 1, u_role = ''admin'', u_is_active = True\<rparr>"

definition demo_manager :: user where
  "demo_manager = \<lparr>u_id = 2, u_role = ''manager'', u_is_active = True\<rparr>"

definition demo_employee :: user where
  "demo_employee = \<lparr>u_id = 5, u_role = ''employee'', u_is_active = True\<rparr>"

definition demo_finance :: user where
  "demo_finance = \<lparr>u_id = 7, u_role = ''finance'', u_is_active = True\<rparr>"

definition demo_expense :: expense where
  "demo_expense = \<lparr>e_id = 1, e_description = ''Taxi'', e_amount = 120, e_date = 1000,
     e_category = Travel, e_notes = None, e_status = Submitted, e_submitter_id = 5,
     e_approver_id = None, e_reimburser_id = None, e_created_at = 1000,
     e_approved_at = None, e_reimbursed_at = None, e_client_id = None\<rparr>"

definition demo_expense_approved :: expense where
  "demo_expense_approved = \<lparr>e_id = 2, e_description = ''Router'', e_amount = 80,
     e_date = 1100, e_category = Equipment, e_notes = Some ''spare unit'',
     e_status = Approved, e_submitter_id = 5, e_approver_id = Some 2,
     e_reimburser_id = None, e_created_at = 1100, e_approved_at = Some 1500,
     e_reimbursed_at = None, e_client_id = Some 1\<rparr>"

definition demo_client1 :: client where
  "demo_client1 = \<lparr>cl_id = 1, cl_name = ''Acme'', cl_location = ''Kigali'',
     cl_status = Inactive, cl_service_plan = Basic, cl_notes = None, cl_created_at = 1,
     cl_onboarded_at = Some 5\<rparr>"

definition demo_client2 :: client where
  "demo_client2 = \<lparr>cl_id = 2, cl_name = ''Globex'', cl_location = ''Huye'',
     cl_status = Active, cl_service_plan = Premium, cl_notes = None, cl_created_at = 2,
     cl_onboarded_at = Some 6\<rparr>"

definition demo_contact :: contact where
  "demo_contact = \<lparr>c_id = 1, c_client_id = 2, c_name = ''Ada'', c_role = None,
     c_department = None, c_email = ''ada@globex.example'', c_phone = None,
     c_preferred_contact = Some ''email'', c_is_primary = Some True, c_created_at = 10\<rparr>"

definition demo_contact2 :: contact where
  "demo_contact2 = \<lparr>c_id = 2, c_client_id = 2, c_name = ''Bob'', c_role = None,
     c_department = None, c_email = ''bob@globex.example'', c_phone = None,
     c_preferred_contact = Some ''email'', c_is_primary = Some False, c_created_at = 11\<rparr>"

definition demo_contact_in :: contact_create where
  "demo_contact_in = \<lparr>cc_name = ''Eve'', cc_role = None, cc_department = None,
     cc_email = ''eve@globex.example'', cc_phone = None,
     cc_preferred_contact = Some ''email'', cc_is_primary = True, cc_client_id = 2\<rparr>"

definition demo_quotation1 :: quotation where
  "demo_quotation1 = \<lparr>q_id = 1, q_client_id = 2, q_version = 1, q_html_content = ''v1'',
     q_status = Sent, q_created_at = 20, q_sent_at = Some 21\<rparr>"

definition demo_quotation2 :: quotation where
  "demo_quotation2 = \<lparr>q_id = 2, q_client_id = 2, q_version = 2, q_html_content = ''v2'',
     q_status = Draft, q_created_at = 30, q_sent_at = Some 25\<rparr>"

definition demo_quotation_in :: quotation_create where
  "demo_quotation_in = \<lparr>qc_html_content = ''v3'', qc_status = Draft, qc_client_id = 2\<rparr>"

definition demo_task :: task where
  "demo_task = \<lparr>t_id = 1, t_title = ''Survey site'', t_description = None,
     t_priority = High, t_due_date = None, t_status = TPending,
     t_completion_percentage = Some 0, t_owner_id = 5, t_assignee_id = None,
     t_client_id = None, t_category = None, t_created_at = 40, t_completed_at = None,
     t_reminder_enabled = Some False, t_reminder_date = None\<rparr>"

definition demo_db :: db where
  "demo_db = \<lparr>users = [demo_admin, demo_manager, demo_employee, demo_finance],
     clients = [demo_client1, demo_client2],
     contacts = [demo_contact, demo_contact2],
     quotations = [demo_quotation1, demo_quotation2],
     tasks = [demo_task],
     expenses = [demo_expense, demo_expense_approved]\<rparr>"

definition demo_expense_in :: expense_create where
  "demo_expense_in = \<lparr>ec_description = ''Bus fare'', ec_amount = 120, ec_date = 1900,
     ec_category = Travel, ec_notes = None, ec_client_id = None\<rparr>"

text \<open>Requests that set one field and leave every other field out.\<close>

definition no_expense_update :: expense_update where
  "no_expense_update = \<lparr>eu_description = None, eu_amount = None, eu_date = None,
     eu_category = None, eu_notes = None, eu_status = None, eu_client_id = None\<rparr>"

definition no_client_update :: client_update where
  "no_client_update = \<lparr>clu_name = None, clu_location = None, clu_status = None,
     clu_service_plan = None, clu_notes = None\<rparr>"

definition no_quotation_update :: quotation_update where
  "no_quotation_update = \<lparr>qu_html_content = None, qu_status = None\<rparr>"

definition no_task_update :: task_update where
  "no_task_update = \<lparr>tu_title = None, tu_description = None, tu_priority = None,
     tu_due_date = None, tu_status = None, tu_completion_percentage = None,
     tu_assignee_id = None, tu_category = None, tu_client_id = None,
     tu_reminder_enabled = None, tu_reminder_date = None\<rparr>"

section \<open>Evaluation and lookup lemmas\<close>

lemmas demo_rows =
  demo_admin_def demo_manager_def demo_employee_def demo_finance_def
  demo_expense_def demo_expense_approved_def demo_client1_def demo_client2_def
  demo_contact_def demo_contact2_def demo_contact_in_def
  demo_quotation1_def demo_quotation2_def demo_quotation_in_def demo_task_def
  demo_expense_in_def no_expense_update_def no_client_update_def no_quotation_update_def
  no_task_update_def

lemmas lookups =
  get_expense_row_def get_client_row_def get_user_row_def get_task_row_def

lemmas field_ops = set_required_def set_nullable_def attr_def

lemma find_save_expense:
  "find (\<lambda>e. e_id e = i) rows = Some x \<Longrightarrow> e_id x' = i \<Longrightarrow>
   find (\<lambda>e. e_id e = i) (save_expense x' rows) = Some x'"
  by (induction rows) (auto simp: save_expense_def)

lemma get_expense_row_id:
  "get_expense_row d i = Some x \<Longrightarrow> e_id x = i"
  by (auto simp: get_expense_row_def find_Some_iff)


lemma manager_dependency_passes:
  "u_is_active u \<Longrightarrow> u_role u = ''admin'' \<or> u_role u = ''manager'' \<Longrightarrow>
   get_current_manager_or_admin_user u = Inr u"
  by (auto simp: get_current_manager_or_admin_user_def get_current_active_user_def)


section \<open>Expenses: the reimburse and approve actions\<close>



text \<open>
  Claim C10. The approve route stores the status of the request as it is. For an expense
  in status \<open>submitted\<close> and an active caller whose role is \<open>admin\<close> or \<open>manager\<close>,
  whatever status the payload carries (\<open>approved\<close>, \<open>rejected\<close>, \<open>reimbursed\<close> or
  \<open>submitted\<close>), the route returns the expense with exactly that status, with the caller
  as \<open>approver_id\<close> and the current time as \<open>approved_at\<close>, and that row is what the
  store holds afterwards. The witness runs it with the payload status \<open>reimbursed\<close>, where
  a submitted expense goes to \<open>reimbursed\<close> in one approve call, and with the payload
  status \<open>rejected\<close>, where the rejection carries the approver and the approval time.
\<close>

theorem approve_expense_copies_payload_status:
  assumes "get_expense_row d expense_id = Some expense"
    and "e_status expense = Submitted"
    and "u_is_active u"
    and "u_role u = ''admin'' \<or> u_role u = ''manager''"
  shows "\<exists>expense' d'.
           approve_expense_route now d expense_id approval u = (Inr expense', d')
         \<and> e_status expense' = ea_status approval
         \<and> e_approver_id expense' = Some (u_id u)
         \<and> e_approved_at expense' = Some now
         \<and> get_expense_row d' expense_id = Some expense'"
proof -
  have i: "e_id expense = expense_id" using assms(1) by (rule get_expense_row_id)
  have dep: "get_current_manager_or_admin_user u = Inr u"
    using assms(3,4) by (rule manager_dependency_passes)
  from assms(1,2) i dep show ?thesis
    by (simp add: approve_expense_route_def approve_expense_def Let_def get_expense_row_def
        find_save_expense)
qed

theorem approve_expense_copies_payload_status_witness:
  "(\<exists>expense' d'.
     approve_expense_route 2000 demo_db 1 \<lparr>ea_status = Reimbursed, ea_notes = None\<rparr> demo_manager
       = (Inr expense', d')
     \<and> e_status expense' = Reimbursed
     \<and> e_approver_id expense' = Some 2
     \<and> e_approved_at expense' = Some 2000
     \<and> get_expense_row d' 1 = Some expense')
   \<and> (\<exists>expense' d'.
     approve_expense_route 2000 demo_db 1 \<lparr>ea_status = Rejected, ea_notes = None\<rparr> demo_admin
       = (Inr expense', d')
     \<and> e_status expense' = Rejected
     \<and> e_approver_id expense' = Some 1
     \<and> e_approved_at expense' = Some 2000
     \<and> get_expense_row d' 1 = Some expense')"
proof -
  have h: "get_expense_row demo_db 1 = Some demo_expense"
    by (simp add: get_expense_row_def demo_db_def demo_expense_def)
  have s: "e_status demo_expense = Submitted"
    by (simp add: demo_expense_def)
  have a: "u_is_active demo_manager" "u_is_active demo_admin"
    by (simp_all add: demo_manager_def demo_admin_def)
  have r: "u_role demo_manager = ''admin'' \<or> u_role demo_manager = ''manager''"
    "u_role demo_admin = ''admin'' \<or> u_role demo_admin = ''manager''"
    by (simp_all add: demo_manager_def demo_admin_def)
  have u: "u_id demo_manager = 2" "u_id demo_admin = 1"
    by (simp_all add: demo_manager_def demo_admin_def)
  from approve_expense_copies_payload_status [OF h s a(1) r(1),
         of 2000 "\<lparr>ea_status = Reimbursed, ea_notes = None\<rparr>"]
       approve_expense_copies_payload_status [OF h s a(2) r(2),
         of 2000 "\<lparr>ea_status = Rejected, ea_notes = None\<rparr>"] u
  show ?thesis by simp
qed

text \<open>
  The expense workflow on the small store: the manager approves the submitted expense 1,
  finance reimburses it, and a second reimburse call is refused with the state-conflict
  exception.
\<close>

lemma expense_workflow_scenario:
  "approve_expense_route 1500 demo_db 1 \<lparr>ea_status = Approved, ea_notes = None\<rparr> demo_manager
     = (Inr (demo_expense\<lparr>e_status := Approved, e_approver_id := Some 2,
               e_approved_at := Some 1500\<rparr>),
        demo_db\<lparr>expenses := [demo_expense\<lparr>e_status := Approved, e_approver_id := Some 2,
               e_approved_at := Some 1500\<rparr>, demo_expense_approved]\<rparr>)
   \<and> fst (reimburse_expense_route 2000
        (snd (approve_expense_route 1500 demo_db 1 \<lparr>ea_status = Approved, ea_notes = None\<rparr>
           demo_manager)) 1 demo_finance)
     = Inr (demo_expense\<lparr>e_status := Reimbursed, e_approver_id := Some 2,
              e_approved_at := Some 1500, e_reimburser_id := Some 7,
              e_reimbursed_at := Some 2000\<rparr>)
   \<and> fst (reimburse_expense_route 2100
        (snd (reimburse_expense_route 2000
           (snd (approve_expense_route 1500 demo_db 1
              \<lparr>ea_status = Approved, ea_notes = None\<rparr> demo_manager)) 1 demo_finance))
        1 demo_finance)
     = Inl (HTTPException 400 ''Can only reimburse approved expenses'')"
  by (simp add: approve_expense_route_def approve_expense_def reimburse_expense_route_def
      reimburse_expense_def get_current_manager_or_admin_user_def
      get_current_finance_admin_or_admin_user_def get_current_active_user_def
      approval_notes_def save_expense_def lookups demo_db_def demo_rows Let_def)

section \<open>Expenses: direct update of the status\<close>

text \<open>
  What \<^verbatim>\<open>update_expense\<close> does with a status in the request. For the roles the
  status block names, the matrix holds: \<open>finance\<close> may only send \<open>reimbursed\<close>,
  \<open>manager\<close> only \<open>approved\<close> or \<open>rejected\<close>, \<open>admin\<close> anything; a refused
  request ends in HTTP 403 and the unchanged store. For every role the block does not name
  the status of the request is written as it is.
\<close>

lemma status_block_matrix:
  "(\<exists>expense'. status_block now current_user (Some target) expense = Inr expense') =
     (if u_role current_user = ''finance'' then target = Reimbursed
      else if u_role current_user = ''manager'' then target = Approved \<or> target = Rejected
      else True)"
  by (auto simp: status_block_def)

lemma setattr_expense_status:
  "setattr_expense upd e = Inr e' \<Longrightarrow> eu_status upd = Some (Some target) \<Longrightarrow>
   e_status e' = target"
  by (auto simp: setattr_expense_def set_required_def split: option.splits)

lemma setattr_expense_succeeds:
  assumes "eu_description upd \<noteq> Some None" and "eu_amount upd \<noteq> Some None"
    and "eu_date upd \<noteq> Some None" and "eu_category upd \<noteq> Some None"
    and "eu_status upd \<noteq> Some None"
  shows "\<exists>e'. setattr_expense upd e = Inr e'"
proof -
  obtain de where 1: "set_required (eu_description upd) (e_description e) = Some de"
    using assms(1) by (cases "eu_description upd") (auto simp: set_required_def)
  obtain am where 2: "set_required (eu_amount upd) (e_amount e) = Some am"
    using assms(2) by (cases "eu_amount upd") (auto simp: set_required_def)
  obtain da where 3: "set_required (eu_date upd) (e_date e) = Some da"
    using assms(3) by (cases "eu_date upd") (auto simp: set_required_def)
  obtain ca where 4: "set_required (eu_category upd) (e_category e) = Some ca"
    using assms(4) by (cases "eu_category upd") (auto simp: set_required_def)
  obtain st where 5: "set_required (eu_status upd) (e_status e) = Some st"
    using assms(5) by (cases "eu_status upd") (auto simp: set_required_def)
  show ?thesis by (simp add: setattr_expense_def 1 2 3 4 5)
qed

lemma update_expense_returns_setattr:
  "update_expense now d expense_id expense_in current_user = (Inr expense', d') \<Longrightarrow>
   \<exists>stamped. setattr_expense expense_in stamped = Inr expense'"
  by (auto simp: update_expense_def split: option.splits if_splits sum.splits)

lemma update_expense_status_applied:
  assumes "eu_status expense_in = Some (Some target)"
    and "update_expense now d expense_id expense_in current_user = (Inr expense', d')"
  shows "e_status expense' = target"
  using update_expense_returns_setattr [OF assms(2)] assms(1)
  by (auto dest: setattr_expense_status)

lemma update_expense_privileged_denied:
  assumes "get_expense_row d expense_id = Some expense"
    and "eu_status expense_in = Some (Some target)"
    and "u_role current_user = ''finance'' \<and> target \<noteq> Reimbursed
         \<or> u_role current_user = ''manager'' \<and> target \<noteq> Approved \<and> target \<noteq> Rejected"
  shows "\<exists>detail. update_expense now d expense_id expense_in current_user
           = (Inl (HTTPException 403 detail), d)"
  using assms(3)
proof (elim disjE conjE)
  assume "u_role current_user = ''finance''" "target \<noteq> Reimbursed"
  with assms(1,2) show ?thesis
    by (simp add: update_expense_def status_block_def)
next
  assume "u_role current_user = ''manager''" "target \<noteq> Approved" "target \<noteq> Rejected"
  with assms(1,2) show ?thesis
    by (simp add: update_expense_def status_block_def)
qed

lemma update_expense_unguarded_roles:
  assumes "get_expense_row d expense_id = Some expense"
    and "eu_status expense_in = Some (Some target)"
    and "u_role current_user \<notin> set [''admin'', ''manager'', ''finance'']"
    and "u_role current_user = ''employee'' \<longrightarrow>
           e_submitter_id expense = u_id current_user \<and> e_status expense = Submitted"
    and "eu_description expense_in \<noteq> Some None" and "eu_amount expense_in \<noteq> Some None"
    and "eu_date expense_in \<noteq> Some None" and "eu_category expense_in \<noteq> Some None"
  shows "\<exists>expense' d'. update_expense now d expense_id expense_in current_user
           = (Inr expense', d') \<and> e_status expense' = target"
proof -
  have "eu_status expense_in \<noteq> Some None" using assms(2) by simp
  with assms(5-8) obtain e' where e': "setattr_expense expense_in expense = Inr e'"
    using setattr_expense_succeeds by blast
  have st: "e_status e' = target"
    using e' assms(2) by (rule setattr_expense_status)
  have "update_expense now d expense_id expense_in current_user
          = (Inr e', d\<lparr>expenses := save_expense e' (expenses d)\<rparr>)"
    using assms(1-4) e' by (simp add: update_expense_def)
  with st show ?thesis by blast
qed

text \<open>
  Claim C4. The claim says that a status sent by an actor outside the matrix, in particular
  by an employee on their own submitted expense, is denied and the stored status stays.
  The code does otherwise: the guard in front of the status checks only lets the three
  privileged roles in, and the loop after it assigns every field of the request, the
  status included, for whoever got past the ownership checks. Here the employee who
  submitted expense 1 sends status \<open>reimbursed\<close>; the route returns the expense as
  \<open>reimbursed\<close> (no reimburser, no time stamp) and the store holds it.
\<close>

theorem update_expense_lets_employee_set_status:
  "get_expense_row demo_db 1 = Some demo_expense
   \<and> e_status demo_expense = Submitted
   \<and> e_submitter_id demo_expense = u_id demo_employee
   \<and> u_role demo_employee = ''employee''
   \<and> update_expense_route 2000 demo_db 1
        (no_expense_update\<lparr>eu_status := Some (Some Reimbursed)\<rparr>) demo_employee
       = (Inr (demo_expense\<lparr>e_status := Reimbursed\<rparr>),
          demo_db\<lparr>expenses := [demo_expense\<lparr>e_status := Reimbursed\<rparr>, demo_expense_approved]\<rparr>)"
  by (simp add: update_expense_route_def update_expense_def get_current_active_user_def
      setattr_expense_def field_ops save_expense_def lookups demo_db_def demo_rows Let_def)

section \<open>Expenses: create and delete\<close>

text \<open>
  \<^verbatim>\<open>create_expense\<close> never changes the store and never returns an expense: the row
  it builds is handed to \<^verbatim>\<open>db.delete\<close>, not to \<^verbatim>\<open>db.add\<close>.
\<close>

lemma create_expense_never_persists:
  "snd (create_expense now d expense_in current_user) = d
   \<and> (\<forall>expense. fst (create_expense now d expense_in current_user) \<noteq> Inr expense)"
  by (simp add: create_expense_def session_delete_expense_def Let_def)

text \<open>
  Claim C7. The claim says that creating an expense persists a row with status
  \<open>submitted\<close>, the caller as submitter and no approver. The code builds exactly that
  row and then deletes it instead of adding it: for an active employee and a request
  without a client, the handler ends in the session's exception and the store is the one
  it started from, still holding two expenses.
\<close>

theorem create_expense_persists_nothing:
  "get_current_active_user demo_employee = Inr demo_employee
   \<and> ec_client_id demo_expense_in = None
   \<and> create_expense 2000 demo_db demo_expense_in demo_employee
       = (Inl InvalidRequestError, demo_db)
   \<and> map e_id (expenses (snd (create_expense 2000 demo_db demo_expense_in demo_employee)))
       = [1, 2]"
  by (simp add: create_expense_def session_delete_expense_def get_current_active_user_def
      demo_db_def demo_rows Let_def)

text \<open>
  \<^verbatim>\<open>delete_expense\<close> never changes the store. Its permission checks are the ones
  the role rules describe: for an expense that exists, the handler gets past them exactly
  when the rule of the caller's role allows the deletion.
\<close>

lemma delete_expense_never_deletes:
  "snd (delete_expense now d expense_id current_user) = d"
  by (simp add: delete_expense_def Let_def split: option.splits)

lemma delete_expense_permission:
  assumes "get_expense_row d expense_id = Some expense"
  shows "(fst (delete_expense now d expense_id current_user) = Inr None) =
     (if u_role current_user = ''employee''
      then e_submitter_id expense = u_id current_user \<and> e_status expense = Submitted
      else if u_role current_user = ''manager'' then e_status expense \<noteq> Reimbursed
      else if u_role current_user = ''finance''
      then e_created_at expense \<le> now - 14 * 86400
      else True)"
  using assms by (simp add: delete_expense_def Let_def timedelta_days_def not_less)

text \<open>
  Claim C8. The claim says that a delete request that passes the role rules removes the
  expense. The code checks the rules and stops: an administrator, and the employee who
  submitted it, both pass the checks for expense 1, the handler returns nothing, and the
  expense is still in the store.
\<close>

theorem delete_expense_removes_nothing:
  "get_expense_row demo_db 1 = Some demo_expense
   \<and> delete_expense 2000 demo_db 1 demo_admin = (Inr None, demo_db)
   \<and> delete_expense 2000 demo_db 1 demo_employee = (Inr None, demo_db)
   \<and> get_expense_row (snd (delete_expense 2000 demo_db 1 demo_admin)) 1 = Some demo_expense"
  by (simp add: delete_expense_def lookups demo_db_def demo_rows)


section \<open>Clients and quotations: time stamps on a status change\<close>

text \<open>
  Claim C6, as the claim states it, fails on the code: a client that was onboarded at
  time 5 and is inactive now is set to \<open>active\<close> at time 9, and the update writes 9 over
  the 5; a quotation first sent at time 25 and back in \<open>draft\<close> is set to \<open>sent\<close> at
  time 99, and the update writes 99 over the 25.
\<close>

theorem stamp_overwritten_on_reentry:
  "get_client_row demo_db 1 = Some demo_client1
   \<and> cl_onboarded_at demo_client1 = Some 5
   \<and> fst (update_client 9 demo_db 1 (no_client_update\<lparr>clu_status := Some (Some Active)\<rparr>)
            demo_admin)
       = Inr (demo_client1\<lparr>cl_status := Active, cl_onboarded_at := Some 9\<rparr>)
   \<and> q_sent_at demo_quotation2 = Some 25
   \<and> fst (update_client_quotation 99 demo_db 2 2
            (no_quotation_update\<lparr>qu_status := Some (Some Sent)\<rparr>) demo_admin)
       = Inr (demo_quotation2\<lparr>q_status := Sent, q_sent_at := Some 99\<rparr>)"
  by (simp add: update_client_def update_client_quotation_def setattr_client_def
      setattr_quotation_def field_ops lookups demo_db_def demo_rows Let_def)

text \<open>
  Claim C6, amended. The stamp follows the change of status, not the state of the field.
  A successful client update leaves \<open>onboarded_at\<close> at the current time when the
  request asks for \<open>active\<close> and the stored status is not \<open>active\<close>, whatever the field
  held before, and leaves it at its prior value in every other case; in particular a
  request for \<open>active\<close> on a client that is already active does not touch it. The same
  holds for a quotation, \<open>sent_at\<close> and \<open>sent\<close>.
\<close>

theorem stamp_follows_status_change:
  "(get_client_row d client_id = Some client
      \<and> update_client now d client_id client_in u = (Inr client', d')
    \<longrightarrow> cl_onboarded_at client' =
          (if attr (clu_status client_in) = Some Active \<and> cl_status client \<noteq> Active
           then Some now else cl_onboarded_at client))
   \<and> (find (\<lambda>q. q_id q = quotation_id \<and> q_client_id q = client_id) (quotations d)
         = Some quotation
      \<and> update_client_quotation now d client_id quotation_id quotation_in u
         = (Inr quotation', d'')
    \<longrightarrow> q_sent_at quotation' =
          (if attr (qu_status quotation_in) = Some Sent \<and> q_status quotation \<noteq> Sent
           then Some now else q_sent_at quotation))"
proof (intro conjI impI)
  assume "get_client_row d client_id = Some client
      \<and> update_client now d client_id client_in u = (Inr client', d')"
  then show "cl_onboarded_at client' =
          (if attr (clu_status client_in) = Some Active \<and> cl_status client \<noteq> Active
           then Some now else cl_onboarded_at client)"
    by (auto simp: update_client_def setattr_client_def Let_def
        split: if_splits option.splits sum.splits)
next
  assume "find (\<lambda>q. q_id q = quotation_id \<and> q_client_id q = client_id) (quotations d)
         = Some quotation
      \<and> update_client_quotation now d client_id quotation_id quotation_in u
         = (Inr quotation', d'')"
  then show "q_sent_at quotation' =
          (if attr (qu_status quotation_in) = Some Sent \<and> q_status quotation \<noteq> Sent
           then Some now else q_sent_at quotation)"
    by (auto simp: update_client_quotation_def setattr_quotation_def Let_def
        split: if_splits option.splits sum.splits)
qed

theorem stamp_follows_status_change_witness:
  "get_client_row demo_db 2 = Some demo_client2
   \<and> cl_status demo_client2 = Active
   \<and> cl_onboarded_at demo_client2 = Some 6
   \<and> update_client 9 demo_db 2 (no_client_update\<lparr>clu_status := Some (Some Active)\<rparr>)
        demo_admin = (Inr demo_client2, demo_db)
   \<and> find (\<lambda>q. q_id q = 1 \<and> q_client_id q = 2) (quotations demo_db) = Some demo_quotation1
   \<and> q_status demo_quotation1 = Sent
   \<and> q_sent_at demo_quotation1 = Some 21
   \<and> update_client_quotation 99 demo_db 2 1
        (no_quotation_update\<lparr>qu_status := Some (Some Sent)\<rparr>) demo_admin
       = (Inr demo_quotation1, demo_db)"
proof -
  have h: "get_client_row demo_db 2 = Some demo_client2"
    by (simp add: lookups demo_db_def demo_rows)
  have r: "update_client 9 demo_db 2 (no_client_update\<lparr>clu_status := Some (Some Active)\<rparr>)
             demo_admin = (Inr demo_client2, demo_db)"
    by (simp add: update_client_def setattr_client_def field_ops lookups save_client_def
        demo_db_def demo_rows Let_def)
  have s: "cl_status demo_client2 = Active" "cl_onboarded_at demo_client2 = Some 6"
    by (simp_all add: demo_rows)
  have hq: "find (\<lambda>q. q_id q = 1 \<and> q_client_id q = 2) (quotations demo_db)
              = Some demo_quotation1"
    by (simp add: demo_db_def demo_rows)
  have rq: "update_client_quotation 99 demo_db 2 1
              (no_quotation_update\<lparr>qu_status := Some (Some Sent)\<rparr>) demo_admin
            = (Inr demo_quotation1, demo_db)"
    by (simp add: update_client_quotation_def setattr_quotation_def field_ops
        save_quotation_def demo_db_def demo_rows Let_def)
  have sq: "q_status demo_quotation1 = Sent" "q_sent_at demo_quotation1 = Some 21"
    by (simp_all add: demo_rows)
  from stamp_follows_status_change [of demo_db 2 demo_client2 9
       "no_client_update\<lparr>clu_status := Some (Some Active)\<rparr>" demo_admin demo_client2 demo_db
       1 demo_quotation1 "no_quotation_update\<lparr>qu_status := Some (Some Sent)\<rparr>"
       demo_quotation1 demo_db]
     h r s hq rq sq
  show ?thesis by simp
qed

section \<open>Contacts: one primary contact per client\<close>

text \<open>
  Saving a row back keeps the keys of the table, cannot raise the number of rows with a
  property the saved row lacks, and puts at most one row with a property into a table
  that had none, when keys are distinct. Demoting the one row that has a property leaves
  none.
\<close>

lemma short_list_one_member:
  "length xs \<le> 1 \<Longrightarrow> a \<in> set xs \<Longrightarrow> b \<in> set xs \<Longrightarrow> a = b"
  by (cases xs) auto

lemma save_contact_ids:
  "map c_id (save_contact x rows) = map c_id rows"
  by (induction rows) (auto simp: save_contact_def)

lemma save_contact_not_more:
  "(\<And>r. r \<in> set rows \<Longrightarrow> c_id r = c_id x \<Longrightarrow> Q x \<Longrightarrow> Q r) \<Longrightarrow>
   length (filter Q (save_contact x rows)) \<le> length (filter Q rows)"
  by (induction rows) (auto simp: save_contact_def)

lemma save_contact_absent:
  "c_id x \<notin> set (map c_id rows) \<Longrightarrow> save_contact x rows = rows"
  by (induction rows) (auto simp: save_contact_def)

lemma save_contact_into_empty:
  "distinct (map c_id rows) \<Longrightarrow> filter Q rows = [] \<Longrightarrow>
   length (filter Q (save_contact x rows)) \<le> 1"
proof (induction rows)
  case Nil
  then show ?case by (simp add: save_contact_def)
next
  case (Cons r rows)
  show ?case
  proof (cases "c_id r = c_id x")
    case True
    with Cons.prems(1) have "c_id x \<notin> set (map c_id rows)" by auto
    then have "save_contact x rows = rows" by (rule save_contact_absent)
    then have "save_contact x (r # rows) = x # rows"
      using True by (simp add: save_contact_def)
    moreover have "filter Q rows = []" using Cons.prems(2) by (auto split: if_splits)
    ultimately show ?thesis by simp
  next
    case False
    have "\<not> Q r" using Cons.prems(2) by (auto split: if_splits)
    moreover have "length (filter Q (save_contact x rows)) \<le> 1"
      using Cons.IH Cons.prems by (auto split: if_splits)
    ultimately show ?thesis using False by (simp add: save_contact_def)
  qed
qed

lemma demote_only_primary:
  assumes "ep \<in> set rows" and "Q ep"
    and "length (filter Q rows) \<le> 1"
    and "\<not> Q ep'"
    and "c_id ep' = c_id ep"
  shows "filter Q (save_contact ep' rows) = []"
proof -
  have ep: "ep \<in> set (filter Q rows)"
    using assms(1,2) by simp
  have "\<not> Q y" if "y \<in> set (save_contact ep' rows)" for y
  proof
    assume q: "Q y"
    from that obtain r where r: "r \<in> set rows" "y = (if c_id r = c_id ep' then ep' else r)"
      by (auto simp: save_contact_def)
    with q assms(4) have "c_id r \<noteq> c_id ep'" "y = r" by (auto split: if_splits)
    with q r(1) have "r \<in> set (filter Q rows)" by simp
    with ep assms(3) have "r = ep" by (blast dest: short_list_one_member)
    with \<open>c_id r \<noteq> c_id ep'\<close> assms(5) show False by simp
  qed
  then show ?thesis by (simp add: filter_empty_conv)
qed

text \<open>
  When the client of the request body is the client of the path, creating a contact keeps
  "at most one primary contact" for every client, and keys stay distinct. Updating a
  contact keeps both as well.
\<close>

lemma primary_after_create:
  assumes "\<And>cid. at_most_one_primary cid (contacts d)"
    and "cc_client_id contact_in = client_id"
    and "create_client_contact now d client_id contact_in current_user = (Inr contact, d')"
  shows "at_most_one_primary cid (contacts d')"
proof -
  let ?P = "\<lambda>k c. c_client_id c = k \<and> c_is_primary c = Some True"
  let ?rows = "contacts d"
  have pre: "length (filter (?P k) ?rows) \<le> 1" for k
    using assms(1) [of k] by (simp add: at_most_one_primary_def primary_contacts_def)
  obtain rows where d': "contacts d' = rows @ [contact]"
    and contact: "c_client_id contact = client_id"
      "c_is_primary contact = Some (cc_is_primary contact_in)"
    and rows: "rows = (if cc_is_primary contact_in then
                  (case find (?P client_id) ?rows of
                     None \<Rightarrow> ?rows
                   | Some ep \<Rightarrow> save_contact (ep\<lparr>c_is_primary := Some False\<rparr>) ?rows)
                else ?rows)"
    using assms(2,3)
    by (auto simp: create_client_contact_def Let_def split: if_splits option.splits)
  have le: "length (filter (?P k) rows) \<le> length (filter (?P k) ?rows)" for k
    unfolding rows
    by (auto split: option.splits intro!: save_contact_not_more)
  show ?thesis
  proof (cases "cc_is_primary contact_in \<and> cid = client_id")
    case True
    have "filter (?P client_id) rows = []"
    proof (cases "find (?P client_id) ?rows")
      case None
      then have "rows = ?rows" using True by (simp add: rows)
      moreover have "filter (?P client_id) ?rows = []"
        using None by (simp add: find_None_iff filter_empty_conv)
      ultimately show ?thesis by simp
    next
      case (Some ep)
      then have "filter (?P client_id) (save_contact (ep\<lparr>c_is_primary := Some False\<rparr>) ?rows) = []"
        using pre [of client_id]
        by (intro demote_only_primary [where ep = ep]) (auto simp: find_Some_iff)
      then show ?thesis using True Some by (simp add: rows)
    qed
    then show ?thesis using True
      by (simp add: at_most_one_primary_def primary_contacts_def d')
  next
    case False
    then have "\<not> ?P cid contact" using contact by auto
    then have "length (filter (?P cid) (contacts d')) = length (filter (?P cid) rows)"
      by (simp add: d')
    with le [of cid] pre [of cid] show ?thesis
      by (simp add: at_most_one_primary_def primary_contacts_def)
  qed
qed


lemma setattr_contact_keeps:
  "setattr_contact upd c = Inr c' \<Longrightarrow>
   c_id c' = c_id c \<and> c_client_id c' = c_client_id c
   \<and> c_is_primary c' = set_nullable (cu_is_primary upd) (c_is_primary c)"
  by (auto simp: setattr_contact_def split: option.splits)

lemma primary_after_update:
  assumes "distinct (map c_id (contacts d))"
    and "\<And>k. at_most_one_primary k (contacts d)"
    and "update_client_contact d client_id contact_id contact_in current_user
           = (Inr contact', d')"
  shows "distinct (map c_id (contacts d')) \<and> at_most_one_primary cid (contacts d')"
proof -
  let ?P = "\<lambda>k c. c_client_id c = k \<and> c_is_primary c = Some True"
  let ?Q = "\<lambda>c. c_client_id c = client_id \<and> c_is_primary c = Some True
                \<and> c_id c \<noteq> contact_id"
  let ?rows = "contacts d"
  let ?T = "attr (cu_is_primary contact_in) = Some True \<and> c_is_primary contact \<noteq> Some True"
  have pre: "length (filter (?P k) ?rows) \<le> 1" for k
    using assms(2) [of k] by (simp add: at_most_one_primary_def primary_contacts_def)
  obtain contact rows where
    found: "find (\<lambda>c. c_id c = contact_id \<and> c_client_id c = client_id) ?rows = Some contact"
    and sa: "setattr_contact contact_in contact = Inr contact'"
    and d': "contacts d' = save_contact contact' rows"
    and rows: "rows = (if attr (cu_is_primary contact_in) = Some True
                          \<and> c_is_primary contact \<noteq> Some True then
                  (case find ?Q ?rows of
                     None \<Rightarrow> ?rows
                   | Some ep \<Rightarrow> save_contact (ep\<lparr>c_is_primary := Some False\<rparr>) ?rows)
                else ?rows)"
    using assms(3)
    by (auto simp: update_client_contact_def Let_def split: if_splits option.splits sum.splits)
  have contact: "contact \<in> set ?rows" "c_id contact = contact_id"
    "c_client_id contact = client_id"
    using found by (auto simp: find_Some_iff)
  have keeps: "c_id contact' = contact_id" "c_client_id contact' = client_id"
    "c_is_primary contact' = set_nullable (cu_is_primary contact_in) (c_is_primary contact)"
    using setattr_contact_keeps [OF sa] contact by auto
  have only: "r = contact" if "r \<in> set ?rows" "c_id r = contact_id" for r
    using assms(1) that contact by (auto simp: distinct_map dest: inj_onD)
  have ids: "map c_id rows = map c_id ?rows"
    unfolding rows by (auto simp: save_contact_ids split: option.splits)
  have dist: "distinct (map c_id (contacts d'))"
    using assms(1) by (simp add: d' save_contact_ids ids)
  have le: "length (filter (?P k) rows) \<le> length (filter (?P k) ?rows)" for k
    unfolding rows
    by (auto split: option.splits intro!: save_contact_not_more)
  have "length (filter (?P cid) (contacts d')) \<le> 1"
  proof (cases "attr (cu_is_primary contact_in) = Some True
                  \<and> c_is_primary contact \<noteq> Some True")
    case True
    show ?thesis
    proof (cases "cid = client_id")
      case same: True
      have others: "c_id r \<noteq> contact_id" if "r \<in> set ?rows" "?P client_id r" for r
        using that only [of r] True by auto
      have "filter (?P client_id) rows = []"
      proof (cases "find ?Q ?rows")
        case None
        then have "rows = ?rows" using True by (simp add: rows)
        moreover have "filter (?P client_id) ?rows = []"
          using None others by (auto simp: find_None_iff filter_empty_conv)
        ultimately show ?thesis by simp
      next
        case (Some ep)
        then have ep: "ep \<in> set ?rows" "?P client_id ep"
          by (auto simp: find_Some_iff)
        have "filter (?P client_id) (save_contact (ep\<lparr>c_is_primary := Some False\<rparr>) ?rows) = []"
          using ep pre [of client_id]
          by (intro demote_only_primary [where ep = ep]) auto
        then show ?thesis using True Some by (simp add: rows)
      qed
      moreover have "distinct (map c_id rows)" using assms(1) by (simp add: ids)
      ultimately have "length (filter (?P client_id) (save_contact contact' rows)) \<le> 1"
        by (intro save_contact_into_empty)
      then show ?thesis using same by (simp add: d')
    next
      case False
      then have "\<not> ?P cid contact'" using keeps by auto
      then have "length (filter (?P cid) (save_contact contact' rows))
                   \<le> length (filter (?P cid) rows)"
        by (intro save_contact_not_more) auto
      with le [of cid] pre [of cid] show ?thesis by (simp add: d')
    qed
  next
    case False
    then have r: "rows = ?rows" unfolding rows by auto
    have "?P cid r" if "r \<in> set ?rows" "c_id r = c_id contact'" "?P cid contact'" for r
    proof -
      from that keeps have "r = contact" by (intro only) auto
      moreover have "c_is_primary contact = Some True"
        using that(3) keeps(3) False
        by (cases "cu_is_primary contact_in") (auto simp: set_nullable_def attr_def)
      ultimately show ?thesis using that(3) keeps contact by auto
    qed
    then have "length (filter (?P cid) (save_contact contact' ?rows))
                 \<le> length (filter (?P cid) ?rows)"
      by (intro save_contact_not_more) blast
    with pre [of cid] show ?thesis by (simp add: d' r)
  qed
  with dist show ?thesis
    by (simp add: at_most_one_primary_def primary_contacts_def)
qed

lemma create_contact_keeps_ids_distinct:
  assumes "distinct (map c_id (contacts d))"
    and "create_client_contact now d client_id contact_in current_user = (Inr contact, d')"
  shows "distinct (map c_id (contacts d'))"
proof -
  have fresh: "v < next_id ids" if "v \<in> set ids" for v ids
  proof -
    from that have "v \<le> Max (set (0 # ids))" by (intro Max_ge) auto
    then show ?thesis by (simp only: next_id_def Max.set_eq_fold)
  qed
  have "next_id (map c_id (contacts d)) \<notin> set (map c_id (contacts d))"
    using fresh [of "next_id (map c_id (contacts d))" "map c_id (contacts d)"] by auto
  with assms show ?thesis
    by (auto simp: create_client_contact_def Let_def save_contact_ids
        split: if_splits option.splits)
qed

text \<open>
  Claim C2. The claim says that after every successful create of a contact at most one
  contact of that client is primary, the former primary being demoted in the same update.
  The code demotes the primary contact of the client in the path and files the new contact
  under the client in the request body. With the path naming client 1 and the body naming
  client 2, whose contact 1 is primary, the new contact 3 is stored as primary for client
  2 and contact 1 is not demoted: client 2 has two primary contacts.
\<close>

theorem create_contact_for_other_client_leaves_two_primaries:
  "get_client_row demo_db 1 = Some demo_client1
   \<and> cc_client_id demo_contact_in = 2
   \<and> map c_id (primary_contacts 2 (contacts demo_db)) = [1]
   \<and> fst (create_client_contact 2000 demo_db 1 demo_contact_in demo_employee)
       = Inr \<lparr>c_id = 3, c_client_id = 2, c_name = ''Eve'', c_role = None,
              c_department = None, c_email = ''eve@globex.example'', c_phone = None,
              c_preferred_contact = Some ''email'', c_is_primary = Some True,
              c_created_at = 2000\<rparr>
   \<and> map c_id (primary_contacts 2
         (contacts (snd (create_client_contact 2000 demo_db 1 demo_contact_in demo_employee))))
       = [1, 3]
   \<and> \<not> at_most_one_primary 2
         (contacts (snd (create_client_contact 2000 demo_db 1 demo_contact_in demo_employee)))"
  by (simp add: create_client_contact_def primary_contacts_def at_most_one_primary_def
      next_id_def lookups demo_db_def demo_rows Let_def)

section \<open>Quotations: version numbers\<close>

text \<open>
  When the client of the request body is the client of the path, the new quotation gets
  the largest version of that client plus one: 1 for the first, above every earlier
  version, positive when the earlier ones are.
\<close>

lemma fold_max_ge:
  "(v::int) \<in> set (a # rest) \<Longrightarrow> v \<le> fold max rest a"
proof -
  assume "v \<in> set (a # rest)"
  then have "v \<le> Max (set (a # rest))" by (intro Max_ge) auto
  then show ?thesis by (simp only: Max.set_eq_fold)
qed

lemma or_0_sql_max_ge:
  assumes "v \<in> set vs"
  shows "v \<le> or_0 (sql_max vs)"
proof (cases vs)
  case Nil
  with assms show ?thesis by simp
next
  case (Cons a rest)
  with assms have "v \<le> fold max rest a" by (simp only: fold_max_ge)
  with Cons show ?thesis by (simp add: sql_max_def or_0_def)
qed

lemma create_client_quotation_same_client:
  assumes "0 < client_id"
    and "get_client_row d client_id = Some client"
    and "qc_client_id quotation_in = client_id"
  shows "\<exists>quotation d'.
           create_client_quotation now d client_id quotation_in current_user
             = (Inr quotation, d')
         \<and> q_client_id quotation = client_id
         \<and> q_version quotation = or_0 (sql_max (client_versions client_id (quotations d))) + 1
         \<and> (\<forall>v \<in> set (client_versions client_id (quotations d)). v < q_version quotation)
         \<and> (client_versions client_id (quotations d) = [] \<longrightarrow> q_version quotation = 1)
         \<and> client_versions client_id (quotations d')
             = client_versions client_id (quotations d) @ [q_version quotation]"
proof -
  let ?vs = "client_versions client_id (quotations d)"
  have ge: "\<forall>v \<in> set ?vs. v < or_0 (sql_max ?vs) + 1"
    using or_0_sql_max_ge [of _ ?vs] by fastforce
  have e: "?vs = [] \<longrightarrow> or_0 (sql_max ?vs) + 1 = 1"
    by (simp add: sql_max_def or_0_def)
  from assms ge e show ?thesis
    by (simp add: create_client_quotation_def client_versions_def Let_def)
qed

lemma create_client_quotation_positive:
  assumes "create_client_quotation now d client_id quotation_in current_user
             = (Inr quotation, d')"
    and "\<forall>v \<in> set (client_versions client_id (quotations d)). 1 \<le> v"
  shows "1 \<le> q_version quotation"
proof (cases "client_versions client_id (quotations d)")
  case Nil
  with assms(1) show ?thesis
    by (auto simp: create_client_quotation_def client_versions_def sql_max_def or_0_def
        Let_def split: if_splits option.splits)
next
  case (Cons v rest)
  then have "v \<in> set (client_versions client_id (quotations d))" by simp
  then have "v \<le> or_0 (sql_max (client_versions client_id (quotations d)))"
    by (rule or_0_sql_max_ge)
  moreover have "1 \<le> v" using assms(2) Cons by simp
  ultimately have "1 \<le> or_0 (sql_max (client_versions client_id (quotations d))) + 1"
    by linarith
  with assms(1) show ?thesis
    by (auto simp: create_client_quotation_def client_versions_def Let_def
        split: if_splits option.splits)
qed

text \<open>
  Claim C5. The claim says that a new quotation gets the largest version among the
  quotations of its client plus one, so that versions per client increase with creation.
  The code takes the maximum over the quotations of the client in the path and files the
  quotation under the client in the request body. With the path naming client 1, which has
  no quotation, and the body naming client 2, which has versions 1 and 2, the new
  quotation of client 2 gets version 1: the versions of client 2 read 1, 2, 1.
\<close>

theorem create_quotation_for_other_client_repeats_version:
  "get_client_row demo_db 1 = Some demo_client1
   \<and> qc_client_id demo_quotation_in = 2
   \<and> client_versions 2 (quotations demo_db) = [1, 2]
   \<and> fst (create_client_quotation 2000 demo_db 1 demo_quotation_in demo_manager)
       = Inr \<lparr>q_id = 3, q_client_id = 2, q_version = 1, q_html_content = ''v3'',
              q_status = Draft, q_created_at = 2000, q_sent_at = None\<rparr>
   \<and> client_versions 2
         (quotations (snd (create_client_quotation 2000 demo_db 1 demo_quotation_in
            demo_manager)))
       = [1, 2, 1]"
  by (simp add: create_client_quotation_def client_versions_def sql_max_def or_0_def
      next_id_def lookups demo_db_def demo_rows Let_def)

section \<open>Tasks: completion and assignment\<close>

text \<open>
  The complete action keeps percentage and status together: after it, the percentage is
  100 exactly when the status is \<open>completed\<close>; reaching 100 stamps the completion time,
  and going below 100 on a completed task moves it to \<open>in_progress\<close> and clears the
  stamp. The assign action moves a pending task to \<open>in_progress\<close>.
\<close>

lemma complete_task_consistent:
  assumes "complete_task now d task_id completion_percentage current_user = (Inr task', d')"
  shows "completion_consistent task'"
  using assms
  by (auto simp: complete_task_def completion_consistent_def Let_def
      split: if_splits option.splits)

lemma complete_task_stamps:
  assumes "get_task_row d task_id = Some task"
    and "complete_task now d task_id completion_percentage current_user = (Inr task', d')"
  shows "t_completion_percentage task' = Some completion_percentage
     \<and> (completion_percentage = 100 \<longrightarrow>
           t_status task' = Completed \<and> t_completed_at task' = Some now)
     \<and> (completion_percentage \<noteq> 100 \<and> t_status task = Completed \<longrightarrow>
           t_status task' = InProgress \<and> t_completed_at task' = None)"
  using assms
  by (auto simp: complete_task_def Let_def split: if_splits)

lemma assign_task_advances_pending:
  assumes "get_task_row d task_id = Some task"
    and "t_status task = TPending"
    and "assign_task d task_id assignee_id current_user = (Inr task', d')"
  shows "t_status task' = InProgress \<and> t_assignee_id task' = Some assignee_id"
  using assms
  by (auto simp: assign_task_def Let_def split: if_splits)

text \<open>
  Claim C3. The claim says that after every successful update, the generic one included,
  the percentage is 100 exactly when the status is \<open>completed\<close>. The generic update
  assigns the fields of the request and nothing else: setting the percentage of the
  pending task 1 to 100 leaves it pending with no completion time, and setting its status
  to \<open>completed\<close> leaves its percentage at 0.
\<close>

theorem update_task_leaves_percentage_and_status_apart:
  "get_task_row demo_db 1 = Some demo_task
   \<and> t_status demo_task = TPending
   \<and> update_task 2000 demo_db 1
        (no_task_update\<lparr>tu_completion_percentage := Some (Some 100)\<rparr>) demo_employee
       = (Inr (demo_task\<lparr>t_completion_percentage := Some 100\<rparr>),
          demo_db\<lparr>tasks := [demo_task\<lparr>t_completion_percentage := Some 100\<rparr>]\<rparr>)
   \<and> \<not> completion_consistent (demo_task\<lparr>t_completion_percentage := Some 100\<rparr>)
   \<and> fst (update_task 2000 demo_db 1
        (no_task_update\<lparr>tu_status := Some (Some Completed)\<rparr>) demo_employee)
       = Inr (demo_task\<lparr>t_status := Completed, t_completed_at := Some 2000\<rparr>)
   \<and> \<not> completion_consistent (demo_task\<lparr>t_status := Completed, t_completed_at := Some 2000\<rparr>)"
  by (simp add: update_task_def setattr_task_def field_ops completion_consistent_def
      save_task_def lookups demo_db_def demo_rows Let_def)

text \<open>
  Claim C9. The claim says that a successful update that gives a pending task its first
  assignee, through the generic update as well, moves the task to \<open>in_progress\<close>. The
  generic update stores the assignee and leaves the status: a manager assigns user 2 to
  the pending, unassigned task 1, and the task stays pending.
\<close>

theorem update_task_assigns_without_advancing:
  "get_task_row demo_db 1 = Some demo_task
   \<and> t_status demo_task = TPending
   \<and> t_assignee_id demo_task = None
   \<and> update_task 2000 demo_db 1
        (no_task_update\<lparr>tu_assignee_id := Some (Some 2)\<rparr>) demo_manager
       = (Inr (demo_task\<lparr>t_assignee_id := Some 2\<rparr>),
          demo_db\<lparr>tasks := [demo_task\<lparr>t_assignee_id := Some 2\<rparr>]\<rparr>)
   \<and> t_status (demo_task\<lparr>t_assignee_id := Some 2\<rparr>) = TPending"
  by (simp add: update_task_def setattr_task_def field_ops
      save_task_def lookups demo_db_def demo_rows Let_def)

end
